theory Spec2Isabelle
  imports Complex_Main "HOL-Library.Word" "HOL-Library.Stream"
begin

section \<open>Two-factor authentication service (packages/lib/services/auth.ts)\<close>

text \<open>
  The three exported operations \<^verbatim>\<open>setupTwoFactorAuth\<close>, \<^verbatim>\<open>enableTwoFactorAuth\<close> and
  \<^verbatim>\<open>disableTwoFactorAuth\<close> are embedded as functions on an explicit state (the user
  table and the log of invalidated cache tags). Every \<^verbatim>\<open>throw\<close> of the source is an
  \<open>Inl\<close> result. The functions the file imports (password verifier, cipher, TOTP checker,
  QR renderer, JSON codec, cache-tag naming, encryption key) are not part of the file;
  they are the fields of a record that every operation takes as its first argument. The
  QR renderer returns a promise that setup awaits: it yields an image or rejects with an
  error. The secret generator and the key-URI builder of the authenticator library are
  written out as definitions.
\<close>

subsection \<open>JavaScript values\<close>

text \<open>What \<^verbatim>\<open>JSON.parse\<close> can return.\<close>

datatype json =
    JNull
  | JBool bool
  | JNumber real
  | JString string
  | JArray "json list"
  | JObject "(string \<times> json) list"

text \<open>
  \<^verbatim>\<open>new Error(msg)\<close> thrown by the service itself carries its message. The other
  constructors are the exceptions of the runtime: \<^verbatim>\<open>JSON.parse\<close> on malformed text, a
  method call on a value that has no such method, and an update of a row that does not
  exist.
\<close>

datatype error = Error string | SyntaxError | TypeError | RecordNotFound

text \<open>Truthiness of a nullable string: \<^verbatim>\<open>null\<close>, \<^verbatim>\<open>undefined\<close> and \<^verbatim>\<open>""\<close> are falsy.\<close>

definition truthy :: "string option \<Rightarrow> bool" where
  "truthy v = (case v of None \<Rightarrow> False | Some s \<Rightarrow> s \<noteq> [])"

text \<open>The string behind a nullable string once a guard has established that it is truthy.\<close>

definition str :: "string option \<Rightarrow> string" where
  "str v = (case v of None \<Rightarrow> [] | Some s \<Rightarrow> s)"

text \<open>\<^verbatim>\<open>a || b\<close> on strings: the left operand when it is truthy, the right one otherwise.\<close>

definition or_else :: "string option \<Rightarrow> string \<Rightarrow> string" where
  "or_else a b = (if truthy a then str a else b)"

text \<open>\<^verbatim>\<open>s.replaceAll(c, r)\<close> for a one-character pattern \<open>c\<close>.\<close>

definition replaceAll :: "char \<Rightarrow> string \<Rightarrow> string \<Rightarrow> string" where
  "replaceAll c r s = concat (map (\<lambda>x. if x = c then r else [x]) s)"

text \<open>
  \<^verbatim>\<open>Array.prototype.indexOf\<close> with a string needle: the first position whose element is
  strictly equal to the needle (so it is a string with the same characters), or \<open>-1\<close>.
\<close>

fun array_indexOf :: "json list \<Rightarrow> string \<Rightarrow> int" where
  "array_indexOf [] x = - 1"
| "array_indexOf (e # es) x =
     (if e = JString x then 0
      else (let i = array_indexOf es x in if i = - 1 then - 1 else i + 1))"

text \<open>\<^verbatim>\<open>String.prototype.indexOf\<close>: the first position where the needle occurs, or \<open>-1\<close>.\<close>

fun string_indexOf :: "string \<Rightarrow> string \<Rightarrow> int" where
  "string_indexOf [] x = (if x = [] then 0 else - 1)"
| "string_indexOf (c # cs) x =
     (if take (length x) (c # cs) = x then 0
      else (let i = string_indexOf cs x in if i = - 1 then - 1 else i + 1))"

text \<open>
  \<^verbatim>\<open>v.indexOf(x)\<close> on a parsed JSON value \<open>v\<close>: arrays and strings have the method;
  on \<^verbatim>\<open>null\<close>, a boolean, a number or a plain object the call raises a \<^verbatim>\<open>TypeError\<close>.
\<close>

fun indexOf :: "json \<Rightarrow> string \<Rightarrow> error + int" where
  "indexOf (JArray es) x = Inr (array_indexOf es x)"
| "indexOf (JString s) x = Inr (string_indexOf s x)"
| "indexOf _ x = Inl TypeError"

subsection \<open>Random bytes and their hexadecimal rendering\<close>

type_synonym byte = "8 word"

text \<open>The operating system's entropy, read front to back.\<close>

type_synonym entropy = "byte stream"

definition crypto_randomBytes :: "nat \<Rightarrow> entropy \<Rightarrow> byte list \<times> entropy" where
  "crypto_randomBytes n en = (stake n en, sdrop n en)"

definition hexDigit :: "nat \<Rightarrow> char" where
  "hexDigit n = ''0123456789abcdef'' ! n"

text \<open>\<^verbatim>\<open>buf.toString("hex")\<close>: two lower-case digits per byte, high nibble first.\<close>

definition toString_hex :: "byte list \<Rightarrow> string" where
  "toString_hex bs =
     concat (map (\<lambda>b. [hexDigit (unat b div 16), hexDigit (unat b mod 16)]) bs)"

text \<open>
  \<^verbatim>\<open>Array.from(Array(n), () => crypto.randomBytes(5).toString("hex"))\<close>: the callback
  runs once per index, in index order.
\<close>

fun generateBackupCodes :: "nat \<Rightarrow> entropy \<Rightarrow> string list \<times> entropy" where
  "generateBackupCodes 0 en = ([], en)"
| "generateBackupCodes (Suc n) en =
     (let (bs, en1) = crypto_randomBytes 5 en;
          (cs, en2) = generateBackupCodes n en1
      in (toString_hex bs # cs, en2))"

subsection \<open>The authenticator library\<close>

text \<open>
  Modelled from the spec: \<^verbatim>\<open>authenticator.generateSecret\<close> belongs to the otplib package
  and is not under src/. The spec describes its result as a fresh shared secret of fixed
  entropy in a 32-character canonical encoding, and the comment above the call says that
  20 bytes give 32 characters. The model is the base-32 text of the random bytes (the
  RFC 4648 alphabet, five bits per character, most significant bit first, the last
  group filled with zero bits, no padding characters). The four definitions that follow
  make up that model.
\<close>

definition bits_of_byte :: "byte \<Rightarrow> bool list" where
  "bits_of_byte b = map (bit b) [7, 6, 5, 4, 3, 2, 1, 0 :: nat]"

definition nat_of_bits :: "bool list \<Rightarrow> nat" where
  "nat_of_bits bs = foldl (\<lambda>n b. 2 * n + (if b then 1 else 0)) 0 bs"

fun quintets :: "bool list \<Rightarrow> nat list" where
  "quintets (a # b # c # d # e # rest) = nat_of_bits [a, b, c, d, e] # quintets rest"
| "quintets [] = []"
| "quintets bs = [nat_of_bits (take 5 (bs @ replicate 4 False))]"

definition base32_encode :: "byte list \<Rightarrow> string" where
  "base32_encode bs =
     map (\<lambda>v. ''ABCDEFGHIJKLMNOPQRSTUVWXYZ234567'' ! v) (quintets (concat (map bits_of_byte bs)))"

text \<open>
  Modelled from the spec: \<^verbatim>\<open>authenticator.generateSecret(numberOfBytes)\<close> (otplib, not
  under src/), the encoding above applied to that many fresh random bytes.
\<close>

definition authenticator_generateSecret :: "nat \<Rightarrow> entropy \<Rightarrow> string \<times> entropy" where
  "authenticator_generateSecret numberOfBytes en =
     (let (key, en1) = crypto_randomBytes numberOfBytes en in (base32_encode key, en1))"

text \<open>
  Modelled from the spec: \<^verbatim>\<open>encodeURIComponent\<close>, used by the key-URI builder below.
  Letters, digits and \<^verbatim>\<open>- _ . ! ~ * ' ( )\<close> stay; every other byte of the text becomes
  a percent sign and two upper-case hexadecimal digits. A string is read as its bytes.
\<close>

definition uri_unreserved :: "char \<Rightarrow> bool" where
  "uri_unreserved c =
     (c \<in> set (''ABCDEFGHIJKLMNOPQRSTUVWXYZabcdefghijklmnopqrstuvwxyz0123456789-_.!~*()''
               @ [CHR 0x27]))"

definition encodeURIComponent :: "string \<Rightarrow> string" where
  "encodeURIComponent s =
     concat (map (\<lambda>c. if uri_unreserved c then [c]
                      else [CHR ''%'', ''0123456789ABCDEF'' ! (of_char c div 16 :: nat),
                            ''0123456789ABCDEF'' ! (of_char c mod 16 :: nat)]) s)"

text \<open>
  Modelled from the spec: \<^verbatim>\<open>authenticator.keyuri(accountName, issuer, secret)\<close> belongs
  to the otplib package and is not under src/. The spec describes its result as a
  provisioning URI in the \<^verbatim>\<open>otpauth://\<close> key-URI convention that encodes issuer, account
  and secret. The model is the URI of that convention for a time-based code with the
  library's default parameters: scheme and type, the label \<^verbatim>\<open>issuer:account\<close>, then the
  secret, the period, the number of digits, the algorithm and the issuer as query
  parameters. Without an issuer the account name takes its place in the label and the
  issuer parameter is left out.
\<close>

definition authenticator_keyuri :: "string \<Rightarrow> string \<Rightarrow> string \<Rightarrow> string" where
  "authenticator_keyuri accountName issuer secret =
     ''otpauth://totp/''
       @ encodeURIComponent (if issuer \<noteq> [] then issuer else accountName)
       @ '':'' @ encodeURIComponent accountName
       @ ''?secret='' @ secret
       @ ''&period=30&digits=6&algorithm=SHA1''
       @ (if issuer \<noteq> [] then ''&issuer='' @ encodeURIComponent issuer else [])"

subsection \<open>Data model\<close>

text \<open>The columns of the user row that the service reads or writes.\<close>

record user =
  id' :: string
  name :: "string option"
  email :: "string option"
  password :: "string option"
  identityProvider :: string
  twoFactorEnabled :: bool
  twoFactorSecret :: "string option"
  backupCodes :: "string option"

text \<open>The user table, and the cache tags passed to \<^verbatim>\<open>revalidateTag\<close> so far.\<close>

record world =
  users :: "string \<rightharpoonup> user"
  revalidated :: "string list"

text \<open>
  The imported functions and the configured key. An unset key and an empty key are both
  falsy; the empty string stands for either. \<^verbatim>\<open>qrcode.toDataURL\<close> returns a promise:
  \<open>Inr\<close> is the image it resolves to, \<open>Inl\<close> the error it rejects with.
\<close>

record deps =
  FORMBRICKS_ENCRYPTION_KEY :: string
  verifyPassword :: "string \<Rightarrow> string \<Rightarrow> bool"
  symmetricEncrypt :: "string \<Rightarrow> string \<Rightarrow> string"
  symmetricDecrypt :: "string \<Rightarrow> string \<Rightarrow> string"
  totpAuthenticatorCheck :: "string \<Rightarrow> string \<Rightarrow> bool"
  getProfileCacheTag :: "string \<Rightarrow> string"
  qrcode_toDataURL :: "string \<Rightarrow> error + string"
  JSON_stringify :: "string list \<Rightarrow> string"
  JSON_parse :: "string \<Rightarrow> json option"

text \<open>\<^verbatim>\<open>TDisableTwoFactorAuthParams\<close>; \<^verbatim>\<open>backupCode\<close> is optional.\<close>

record params =
  code_param :: string
  password_param :: string
  backupCode_param :: "string option"

text \<open>The object \<^verbatim>\<open>setupTwoFactorAuth\<close> resolves to.\<close>

record setup_result =
  secret_result :: string
  keyUri_result :: string
  dataUri_result :: string
  backupCodes_result :: "string list"

subsection \<open>Statements: state passing with exceptions\<close>

text \<open>
  A statement maps the state to a result and the state it leaves behind. A thrown
  exception aborts everything that follows and leaves the state as it was when thrown.
\<close>

type_synonym 'a prog = "world \<Rightarrow> (error + 'a) \<times> world"

definition return :: "'a \<Rightarrow> 'a prog" where
  "return x = (\<lambda>w. (Inr x, w))"

definition throw :: "error \<Rightarrow> 'a prog" where
  "throw e = (\<lambda>w. (Inl e, w))"

definition bind :: "'a prog \<Rightarrow> ('a \<Rightarrow> 'b prog) \<Rightarrow> 'b prog" where
  "bind m f = (\<lambda>w. case m w of (Inl e, w') \<Rightarrow> (Inl e, w') | (Inr x, w') \<Rightarrow> f x w')"

text \<open>\<^verbatim>\<open>await p\<close>: the value of a resolved promise; a rejected one throws its error.\<close>

definition await :: "error + 'a \<Rightarrow> 'a prog" where
  "await p = (case p of Inl e \<Rightarrow> throw e | Inr x \<Rightarrow> return x)"

text \<open>\<^verbatim>\<open>prisma.user.findUnique({ where: { id } })\<close>.\<close>

definition prisma_user_findUnique :: "string \<Rightarrow> user option prog" where
  "prisma_user_findUnique userId = (\<lambda>w. (Inr (users w userId), w))"

text \<open>
  \<^verbatim>\<open>prisma.user.update({ where: { id }, data })\<close>: the listed columns of the stored
  row are overwritten, the others keep their values; a missing row is an error.
\<close>

definition prisma_user_update :: "string \<Rightarrow> (user \<Rightarrow> user) \<Rightarrow> unit prog" where
  "prisma_user_update userId data = (\<lambda>w.
     case users w userId of
       None \<Rightarrow> (Inl RecordNotFound, w)
     | Some row \<Rightarrow> (Inr (), w\<lparr>users := (users w)(userId \<mapsto> data row)\<rparr>))"

text \<open>
  \<^verbatim>\<open>revalidateTag(tag)\<close>: the tag is marked as stale. The call is synchronous and its
  result is not used.
\<close>

definition revalidateTag :: "string \<Rightarrow> unit prog" where
  "revalidateTag tag = (\<lambda>w. (Inr (), w\<lparr>revalidated := revalidated w @ [tag]\<rparr>))"

subsection \<open>The three operations\<close>

text \<open>
  \<^verbatim>\<open>setupTwoFactorAuth(userId, password)\<close>, lines 12 to 68. The secret and the backup
  codes are drawn before the user is looked up; the update is the only write, and the
  QR image is awaited after it (line 65).
\<close>

definition setupTwoFactorAuth ::
  "deps \<Rightarrow> entropy \<Rightarrow> string \<Rightarrow> string \<Rightarrow> setup_result prog" where
  "setupTwoFactorAuth d en userId pw =
    (let (secret, en1) = authenticator_generateSecret 20 en;
         (backupCodes, en2) = generateBackupCodes 10 en1
     in bind (prisma_user_findUnique userId) (\<lambda>found.
        case found of
          None \<Rightarrow> throw (Error ''User not found'')
        | Some user \<Rightarrow>
            if \<not> truthy (password user) then throw (Error ''User does not have a password set'')
            else if identityProvider user \<noteq> ''email''
              then throw (Error ''Third party login is already enabled'')
            else if \<not> verifyPassword d pw (str (password user))
              then throw (Error ''Incorrect password'')
            else
              bind (prisma_user_update userId (\<lambda>row. row\<lparr>
                      backupCodes := Some (symmetricEncrypt d (JSON_stringify d backupCodes)
                                             (FORMBRICKS_ENCRYPTION_KEY d)),
                      twoFactorEnabled := False,
                      twoFactorSecret := Some (symmetricEncrypt d secret
                                                 (FORMBRICKS_ENCRYPTION_KEY d))\<rparr>)) (\<lambda>_.
              let name = or_else (email user) (or_else (name user) (id' user));
                  keyUri = authenticator_keyuri name ''Formbricks'' secret
              in bind (await (qrcode_toDataURL d keyUri)) (\<lambda>dataUri.
                 return \<lparr>secret_result = secret, keyUri_result = keyUri,
                         dataUri_result = dataUri, backupCodes_result = backupCodes\<rparr>))))"

text \<open>\<^verbatim>\<open>enableTwoFactorAuth(userId, code)\<close>, lines 70 to 125.\<close>

definition enableTwoFactorAuth :: "deps \<Rightarrow> string \<Rightarrow> string \<Rightarrow> string prog" where
  "enableTwoFactorAuth d userId code =
     bind (prisma_user_findUnique userId) (\<lambda>found.
       case found of
         None \<Rightarrow> throw (Error ''User not found'')
       | Some user \<Rightarrow>
           if \<not> truthy (password user) then throw (Error ''User does not have a password set'')
           else if identityProvider user \<noteq> ''email''
             then throw (Error ''Third party login is already enabled'')
           else if twoFactorEnabled user
             then throw (Error ''Two factor authentication is already enabled'')
           else if \<not> truthy (twoFactorSecret user)
             then throw (Error ''Two factor setup has not been completed'')
           else if FORMBRICKS_ENCRYPTION_KEY d = []
             then throw (Error ''Encryption key not found'')
           else
             let secret = symmetricDecrypt d (str (twoFactorSecret user))
                            (FORMBRICKS_ENCRYPTION_KEY d)
             in if length secret \<noteq> 32 then throw (Error ''Invalid secret'')
                else if \<not> totpAuthenticatorCheck d code secret then throw (Error ''Invalid code'')
                else
                  bind (prisma_user_update userId (\<lambda>row. row\<lparr>twoFactorEnabled := True\<rparr>)) (\<lambda>_.
                  bind (revalidateTag (getProfileCacheTag d userId)) (\<lambda>_.
                  return ''Two factor authentication enabled'')))"

text \<open>
  \<^verbatim>\<open>disableTwoFactorAuth(userId, params)\<close>, lines 133 to 224. The argument of the first
  \<open>bind\<close> after the password check is the \<^verbatim>\<open>if\<close> / \<^verbatim>\<open>else if\<close> block of lines 164 to
  206; \<^verbatim>\<open>!code\<close> holds for the empty string.
\<close>

definition disableTwoFactorAuth :: "deps \<Rightarrow> string \<Rightarrow> params \<Rightarrow> string prog" where
  "disableTwoFactorAuth d userId ps =
     bind (prisma_user_findUnique userId) (\<lambda>found.
       case found of
         None \<Rightarrow> throw (Error ''User not found'')
       | Some user \<Rightarrow>
           if \<not> truthy (password user) then throw (Error ''User does not have a password set'')
           else if \<not> twoFactorEnabled user
             then throw (Error ''Two factor authentication is not enabled'')
           else if identityProvider user \<noteq> ''email''
             then throw (Error ''Third party login is already enabled'')
           else
             let code = code_param ps; pw = password_param ps; backupCode = backupCode_param ps
             in if \<not> verifyPassword d pw (str (password user))
                  then throw (Error ''Incorrect password'')
                else
                  bind
                    (if twoFactorEnabled user \<and> truthy backupCode then
                       if FORMBRICKS_ENCRYPTION_KEY d = []
                         then throw (Error ''Encryption key not found'')
                       else if \<not> truthy (backupCodes user)
                         then throw (Error ''Missing backup codes'')
                       else
                         case JSON_parse d (symmetricDecrypt d (str (backupCodes user))
                                              (FORMBRICKS_ENCRYPTION_KEY d)) of
                           None \<Rightarrow> throw SyntaxError
                         | Some parsedCodes \<Rightarrow>
                             (case indexOf parsedCodes
                                     (replaceAll CHR ''-'' [] (str backupCode)) of
                                Inl e \<Rightarrow> throw e
                              | Inr index \<Rightarrow>
                                  if index = - 1 then throw (Error ''Incorrect backup code'')
                                  else return ())
                     else if twoFactorEnabled user then
                       if code = [] then throw (Error ''Second factor required'')
                       else if \<not> truthy (twoFactorSecret user)
                         then throw (Error ''Two factor setup has not been completed'')
                       else if FORMBRICKS_ENCRYPTION_KEY d = []
                         then throw (Error ''Encryption key not found'')
                       else
                         let secret = symmetricDecrypt d (str (twoFactorSecret user))
                                        (FORMBRICKS_ENCRYPTION_KEY d)
                         in if length secret \<noteq> 32 then throw (Error ''Invalid secret'')
                            else if \<not> totpAuthenticatorCheck d code secret
                              then throw (Error ''Invalid code'')
                            else return ()
                     else return ())
                    (\<lambda>_.
                  bind (prisma_user_update userId (\<lambda>row. row\<lparr>
                          backupCodes := None,
                          twoFactorEnabled := False,
                          twoFactorSecret := None\<rparr>)) (\<lambda>_.
                  bind (revalidateTag (getProfileCacheTag d userId)) (\<lambda>_.
                  return ''Two factor authentication disabled''))))"

subsection \<open>The invariant of the user row\<close>

text \<open>
  A row with two-factor authentication switched on has a stored secret, and that secret
  decrypts under the configured key to exactly 32 characters.
\<close>

definition two_factor_invariant :: "deps \<Rightarrow> user \<Rightarrow> bool" where
  "two_factor_invariant d u =
     (twoFactorEnabled u \<longrightarrow>
        twoFactorSecret u \<noteq> None \<and>
        length (symmetricDecrypt d (str (twoFactorSecret u)) (FORMBRICKS_ENCRYPTION_KEY d)) = 32)"

text \<open>A string of hexadecimal digits, as \<^verbatim>\<open>toString("hex")\<close> writes them.\<close>

definition is_hex :: "string \<Rightarrow> bool" where
  "is_hex s = list_all (\<lambda>c. c \<in> set ''0123456789abcdef'') s"

subsection \<open>An example environment\<close>

text \<open>
  Simple stand-ins for the imported functions, used to run the operations on concrete
  rows: a cipher that prefixes the key, a password hash that prefixes \<^verbatim>\<open>hash:\<close>, a
  TOTP checker that accepts one code, a JSON codec for arrays of plain strings, and a
  QR renderer that rejects what does not fit a QR code.
\<close>

definition dquote :: char where
  "dquote = CHR 0x22"

fun example_join :: "string list \<Rightarrow> string" where
  "example_join [] = []"
| "example_join [x] = dquote # x @ [dquote]"
| "example_join (x # y # ys) = dquote # x @ [dquote] @ '','' @ example_join (y # ys)"

definition example_stringify :: "string list \<Rightarrow> string" where
  "example_stringify xs = ''['' @ example_join xs @ '']''"

text \<open>
  The flag says whether the reader is inside a string literal; \<open>acc\<close> holds the
  characters of the literal read so far and \<open>items\<close> the elements completed.
\<close>

fun example_parse_elems :: "bool \<Rightarrow> string \<Rightarrow> json list \<Rightarrow> string \<Rightarrow> json option" where
  "example_parse_elems inside acc items [] = None"
| "example_parse_elems True acc items (c # cs) =
     (if c = dquote then example_parse_elems False [] (items @ [JString acc]) cs
      else example_parse_elems True (acc @ [c]) items cs)"
| "example_parse_elems False acc items (c # cs) =
     (if c = CHR '']'' \<and> cs = [] then Some (JArray items)
      else if c = CHR '','' then
        (case cs of
           [] \<Rightarrow> None
         | q # cs' \<Rightarrow> if q = dquote then example_parse_elems True [] items cs' else None)
      else None)"

definition example_parse :: "string \<Rightarrow> json option" where
  "example_parse s =
     (case s of
        [] \<Rightarrow> None
      | b # rest \<Rightarrow>
          if b \<noteq> CHR ''['' then None
          else if rest = '']'' then Some (JArray [])
          else (case rest of
                  [] \<Rightarrow> None
                | q # cs \<Rightarrow> if q = dquote then example_parse_elems True [] [] cs else None))"

text \<open>
  A renderer with the limits of a QR code: no image for an empty text, and none for a
  text longer than the 2331 bytes that the largest symbol holds at the default error
  correction level.
\<close>

definition example_toDataURL :: "string \<Rightarrow> error + string" where
  "example_toDataURL text =
     (if text = [] then Inl (Error ''No input text'')
      else if 2331 < length text
        then Inl (Error ''The amount of data is too big to be stored in a QR Code'')
      else Inr (''data:image/png;base64,'' @ text))"

definition example_deps :: deps where
  "example_deps = \<lparr>
     FORMBRICKS_ENCRYPTION_KEY = ''k3y'',
     verifyPassword = (\<lambda>pw hash. hash = ''hash:'' @ pw),
     symmetricEncrypt = (\<lambda>text key. key @ '':'' @ text),
     symmetricDecrypt = (\<lambda>text key. drop (length key + 1) text),
     totpAuthenticatorCheck = (\<lambda>code secret. code = ''123456''),
     getProfileCacheTag = (\<lambda>userId. ''profile-'' @ userId),
     qrcode_toDataURL = example_toDataURL,
     JSON_stringify = example_stringify,
     JSON_parse = example_parse\<rparr>"

definition example_entropy :: entropy where
  "example_entropy = siterate (\<lambda>b. b + 37) 11"

definition example_user :: user where
  "example_user = \<lparr>
     id' = ''u1'', name = Some ''Ada'', email = Some ''ada@example.com'',
     password = Some ''hash:s3cret'', identityProvider = ''email'',
     twoFactorEnabled = False, twoFactorSecret = None, backupCodes = None\<rparr>"

text \<open>The row after a setup: secret and backup codes stored, not yet enabled.\<close>

definition example_user_pending :: user where
  "example_user_pending = example_user\<lparr>
     twoFactorSecret := Some ''k3y:JBSWY3DPEHPK3PXPJBSWY3DPEHPK3PXP'',
     backupCodes := Some (''k3y:'' @ example_stringify [''abcd123456'', ''0011223344''])\<rparr>"

definition example_user_enabled :: user where
  "example_user_enabled = example_user_pending\<lparr>twoFactorEnabled := True\<rparr>"

text \<open>Rows whose e-mail address is empty, and whose e-mail address and name are both unset.\<close>

definition example_user_no_email :: user where
  "example_user_no_email = example_user\<lparr>email := Some []\<rparr>"

definition example_user_unnamed :: user where
  "example_user_unnamed = example_user\<lparr>email := None, name := None\<rparr>"

text \<open>
  An enabled row whose e-mail address has 2412 characters, more than a QR code holds,
  and an enabled row whose identity provider is no longer \<^verbatim>\<open>email\<close>.
\<close>

definition example_long_email :: string where
  "example_long_email = replicate 2400 CHR ''a'' @ ''@example.com''"

definition example_user_long_email :: user where
  "example_user_long_email = example_user_enabled\<lparr>email := Some example_long_email\<rparr>"


definition world_of :: "user \<Rightarrow> world" where
  "world_of u = \<lparr>users = [id' u \<mapsto> u], revalidated = []\<rparr>"

section \<open>Auxiliary facts\<close>

lemmas prog_defs = bind_def throw_def return_def prisma_user_findUnique_def
  prisma_user_update_def revalidateTag_def

lemma replaceAll_hyphen: "replaceAll c [] s = filter (\<lambda>x. x \<noteq> c) s"
  by (induction s) (simp_all add: replaceAll_def)

lemma array_indexOf_ge: "- 1 \<le> array_indexOf es x"
  by (induction es) (simp_all add: Let_def)

lemma array_indexOf_absent: "array_indexOf es x = - 1 \<longleftrightarrow> JString x \<notin> set es"
proof (induction es)
  case Nil
  show ?case by simp
next
  case (Cons e es)
  have "- 1 \<le> array_indexOf es x" by (rule array_indexOf_ge)
  then have "array_indexOf es x + 1 \<noteq> - 1" by arith
  with Cons show ?case by (auto simp: Let_def)
qed

lemma hexDigit_is_hex: "n < 16 \<Longrightarrow> hexDigit n \<in> set ''0123456789abcdef''"
  unfolding hexDigit_def by (rule nth_mem) simp

lemma byte_nibbles: "unat (b :: byte) div 16 < 16"
proof -
  have "unat b < 2 ^ LENGTH(8)" by (rule unsigned_less)
  then show ?thesis by simp
qed

lemma length_toString_hex: "length (toString_hex bs) = 2 * length bs"
  by (induction bs) (simp_all add: toString_hex_def)

lemma is_hex_toString_hex: "is_hex (toString_hex bs)"
  by (induction bs)
     (simp_all add: toString_hex_def is_hex_def hexDigit_is_hex byte_nibbles del: set_simps)

lemma length_generateBackupCodes: "length (fst (generateBackupCodes n en)) = n"
  by (induction n arbitrary: en) (simp_all add: crypto_randomBytes_def Let_def split_beta)

lemma generateBackupCodes_hex:
  "c \<in> set (fst (generateBackupCodes n en)) \<Longrightarrow> length c = 10 \<and> is_hex c"
  by (induction n arbitrary: en)
     (auto simp: crypto_randomBytes_def Let_def split_beta length_toString_hex
        is_hex_toString_hex)

subsection \<open>Facts about the authenticator library\<close>

lemma length_quintets: "length (quintets bs) = (length bs + 4) div 5"
  by (induction bs rule: quintets.induct) simp_all

lemma length_bits_of_bytes: "length (concat (map bits_of_byte bs)) = 8 * length bs"
  by (induction bs) (simp_all add: bits_of_byte_def)

lemma length_base32_encode: "length (base32_encode bs) = (8 * length bs + 4) div 5"
  by (simp add: base32_encode_def length_quintets length_bits_of_bytes)

lemma generated_secret_length: "length (fst (authenticator_generateSecret 20 en)) = 32"
  by (simp add: authenticator_generateSecret_def crypto_randomBytes_def length_base32_encode)

lemma length_encodeURIComponent: "length s \<le> length (encodeURIComponent s)"
  by (induction s) (simp_all add: encodeURIComponent_def)

lemma encode_Formbricks: "encodeURIComponent ''Formbricks'' = ''Formbricks''"
  by (simp add: encodeURIComponent_def uri_unreserved_def)

lemma keyuri_Formbricks:
  "authenticator_keyuri accountName ''Formbricks'' secret =
     ''otpauth://totp/Formbricks:'' @ encodeURIComponent accountName @ ''?secret='' @ secret
       @ ''&period=30&digits=6&algorithm=SHA1&issuer=Formbricks''"
  by (simp add: authenticator_keyuri_def encode_Formbricks)

lemma encode_examples:
  "encodeURIComponent ''ada@example.com'' = ''ada%40example.com''"
  "encodeURIComponent ''Ada'' = ''Ada''"
  "encodeURIComponent ''u1'' = ''u1''"
  by (simp_all add: encodeURIComponent_def uri_unreserved_def)

subsection \<open>The operations with the statements run\<close>

lemma setup_unfold:
  "setupTwoFactorAuth d en userId pw w =
    (case users w userId of
       None \<Rightarrow> (Inl (Error ''User not found''), w)
     | Some u \<Rightarrow>
     if \<not> truthy (password u) then (Inl (Error ''User does not have a password set''), w)
     else if identityProvider u \<noteq> ''email''
       then (Inl (Error ''Third party login is already enabled''), w)
     else if \<not> verifyPassword d pw (str (password u))
       then (Inl (Error ''Incorrect password''), w)
     else
       (case qrcode_toDataURL d (authenticator_keyuri
                (or_else (email u) (or_else (name u) (id' u))) ''Formbricks''
                (fst (authenticator_generateSecret 20 en))) of
          Inl e \<Rightarrow> Inl e
        | Inr img \<Rightarrow>
            Inr \<lparr>secret_result = fst (authenticator_generateSecret 20 en),
                 keyUri_result = authenticator_keyuri
                    (or_else (email u) (or_else (name u) (id' u))) ''Formbricks''
                    (fst (authenticator_generateSecret 20 en)),
                 dataUri_result = img,
                 backupCodes_result =
                   fst (generateBackupCodes 10 (snd (authenticator_generateSecret 20 en)))\<rparr>,
        w\<lparr>users := (users w)(userId \<mapsto> u\<lparr>
             backupCodes := Some (symmetricEncrypt d (JSON_stringify d
                (fst (generateBackupCodes 10 (snd (authenticator_generateSecret 20 en)))))
                (FORMBRICKS_ENCRYPTION_KEY d)),
             twoFactorEnabled := False,
             twoFactorSecret := Some (symmetricEncrypt d
                (fst (authenticator_generateSecret 20 en))
                (FORMBRICKS_ENCRYPTION_KEY d))\<rparr>)\<rparr>))"
  by (simp add: setupTwoFactorAuth_def prog_defs await_def Let_def split_beta
        split: option.split sum.split)

lemma enable_unfold:
  "enableTwoFactorAuth d userId code w =
    (case users w userId of
       None \<Rightarrow> (Inl (Error ''User not found''), w)
     | Some u \<Rightarrow>
     if \<not> truthy (password u) then (Inl (Error ''User does not have a password set''), w)
     else if identityProvider u \<noteq> ''email''
       then (Inl (Error ''Third party login is already enabled''), w)
     else if twoFactorEnabled u
       then (Inl (Error ''Two factor authentication is already enabled''), w)
     else if \<not> truthy (twoFactorSecret u)
       then (Inl (Error ''Two factor setup has not been completed''), w)
     else if FORMBRICKS_ENCRYPTION_KEY d = [] then (Inl (Error ''Encryption key not found''), w)
     else if length (symmetricDecrypt d (str (twoFactorSecret u))
                       (FORMBRICKS_ENCRYPTION_KEY d)) \<noteq> 32
       then (Inl (Error ''Invalid secret''), w)
     else if \<not> totpAuthenticatorCheck d code
                 (symmetricDecrypt d (str (twoFactorSecret u)) (FORMBRICKS_ENCRYPTION_KEY d))
       then (Inl (Error ''Invalid code''), w)
     else (Inr ''Two factor authentication enabled'',
           w\<lparr>users := (users w)(userId \<mapsto> u\<lparr>twoFactorEnabled := True\<rparr>),
             revalidated := revalidated w @ [getProfileCacheTag d userId]\<rparr>))"
  by (simp add: enableTwoFactorAuth_def prog_defs Let_def split: option.split sum.split)

lemma disable_unfold:
  "disableTwoFactorAuth d userId ps w =
    (case users w userId of
       None \<Rightarrow> (Inl (Error ''User not found''), w)
     | Some u \<Rightarrow>
     if \<not> truthy (password u) then (Inl (Error ''User does not have a password set''), w)
     else if \<not> twoFactorEnabled u
       then (Inl (Error ''Two factor authentication is not enabled''), w)
     else if identityProvider u \<noteq> ''email''
       then (Inl (Error ''Third party login is already enabled''), w)
     else if \<not> verifyPassword d (password_param ps) (str (password u))
       then (Inl (Error ''Incorrect password''), w)
     else if truthy (backupCode_param ps) then
       (if FORMBRICKS_ENCRYPTION_KEY d = [] then (Inl (Error ''Encryption key not found''), w)
        else if \<not> truthy (backupCodes u) then (Inl (Error ''Missing backup codes''), w)
        else
          case JSON_parse d (symmetricDecrypt d (str (backupCodes u))
                               (FORMBRICKS_ENCRYPTION_KEY d)) of
            None \<Rightarrow> (Inl SyntaxError, w)
          | Some parsedCodes \<Rightarrow>
              (case indexOf parsedCodes (replaceAll CHR ''-'' [] (str (backupCode_param ps))) of
                 Inl e \<Rightarrow> (Inl e, w)
               | Inr index \<Rightarrow>
                   if index = - 1 then (Inl (Error ''Incorrect backup code''), w)
                   else (Inr ''Two factor authentication disabled'',
                         w\<lparr>users := (users w)(userId \<mapsto> u\<lparr>backupCodes := None,
                               twoFactorEnabled := False, twoFactorSecret := None\<rparr>),
                           revalidated := revalidated w @ [getProfileCacheTag d userId]\<rparr>)))
     else if code_param ps = [] then (Inl (Error ''Second factor required''), w)
     else if \<not> truthy (twoFactorSecret u)
       then (Inl (Error ''Two factor setup has not been completed''), w)
     else if FORMBRICKS_ENCRYPTION_KEY d = [] then (Inl (Error ''Encryption key not found''), w)
     else if length (symmetricDecrypt d (str (twoFactorSecret u))
                       (FORMBRICKS_ENCRYPTION_KEY d)) \<noteq> 32
       then (Inl (Error ''Invalid secret''), w)
     else if \<not> totpAuthenticatorCheck d (code_param ps)
                 (symmetricDecrypt d (str (twoFactorSecret u)) (FORMBRICKS_ENCRYPTION_KEY d))
       then (Inl (Error ''Invalid code''), w)
     else (Inr ''Two factor authentication disabled'',
           w\<lparr>users := (users w)(userId \<mapsto> u\<lparr>backupCodes := None,
                 twoFactorEnabled := False, twoFactorSecret := None\<rparr>),
             revalidated := revalidated w @ [getProfileCacheTag d userId]\<rparr>))"
  by (simp add: disableTwoFactorAuth_def prog_defs Let_def split: option.split sum.split)

subsection \<open>Every run of an operation, by outcome\<close>

text \<open>
  Enable and disable either throw with the state untouched, or return after their single
  update and the cache invalidation that follows it. Setup throws with the state
  untouched up to its update; after the update it returns, or fails with the error of
  the QR renderer.
\<close>

lemma setup_cases:
  "case setupTwoFactorAuth d en userId pw w of
     (Inl e, w1) \<Rightarrow>
       w1 = w \<or>
       (\<exists>u. users w userId = Some u \<and> truthy (password u) \<and>
            identityProvider u = ''email'' \<and> verifyPassword d pw (str (password u)) \<and>
            qrcode_toDataURL d (authenticator_keyuri
                (or_else (email u) (or_else (name u) (id' u))) ''Formbricks''
                (fst (authenticator_generateSecret 20 en))) = Inl e \<and>
            w1 = w\<lparr>users := (users w)(userId \<mapsto> u\<lparr>
                  backupCodes := Some (symmetricEncrypt d (JSON_stringify d
                     (fst (generateBackupCodes 10 (snd (authenticator_generateSecret 20 en)))))
                     (FORMBRICKS_ENCRYPTION_KEY d)),
                  twoFactorEnabled := False,
                  twoFactorSecret := Some (symmetricEncrypt d
                     (fst (authenticator_generateSecret 20 en))
                     (FORMBRICKS_ENCRYPTION_KEY d))\<rparr>)\<rparr>)
   | (Inr r, w1) \<Rightarrow>
      (\<exists>u. users w userId = Some u \<and> truthy (password u) \<and> identityProvider u = ''email'' \<and>
           verifyPassword d pw (str (password u)) \<and>
           secret_result r = fst (authenticator_generateSecret 20 en) \<and>
           keyUri_result r = authenticator_keyuri
                   (or_else (email u) (or_else (name u) (id' u))) ''Formbricks''
                   (fst (authenticator_generateSecret 20 en)) \<and>
           qrcode_toDataURL d (keyUri_result r) = Inr (dataUri_result r) \<and>
           backupCodes_result r =
                  fst (generateBackupCodes 10 (snd (authenticator_generateSecret 20 en))) \<and>
           w1 = w\<lparr>users := (users w)(userId \<mapsto> u\<lparr>
                  backupCodes := Some (symmetricEncrypt d (JSON_stringify d
                     (fst (generateBackupCodes 10 (snd (authenticator_generateSecret 20 en)))))
                     (FORMBRICKS_ENCRYPTION_KEY d)),
                  twoFactorEnabled := False,
                  twoFactorSecret := Some (symmetricEncrypt d
                     (fst (authenticator_generateSecret 20 en))
                     (FORMBRICKS_ENCRYPTION_KEY d))\<rparr>)\<rparr>)"
  by (simp add: setup_unfold split: option.split sum.split)

lemma enable_cases:
  "case enableTwoFactorAuth d userId code w of
     (Inl e, w1) \<Rightarrow> w1 = w
   | (Inr r, w1) \<Rightarrow>
       (\<exists>u. users w userId = Some u \<and> \<not> twoFactorEnabled u \<and> truthy (twoFactorSecret u) \<and>
           truthy (password u) \<and> identityProvider u = ''email'' \<and>
           length (symmetricDecrypt d (str (twoFactorSecret u))
                     (FORMBRICKS_ENCRYPTION_KEY d)) = 32 \<and>
           totpAuthenticatorCheck d code
             (symmetricDecrypt d (str (twoFactorSecret u)) (FORMBRICKS_ENCRYPTION_KEY d)) \<and>
           w1 = w\<lparr>users := (users w)(userId \<mapsto> u\<lparr>twoFactorEnabled := True\<rparr>),
                  revalidated := revalidated w @ [getProfileCacheTag d userId]\<rparr> \<and>
           r = ''Two factor authentication enabled'')"
  by (simp add: enableTwoFactorAuth_def prog_defs Let_def split: option.split sum.split)

lemma disable_cases:
  "case disableTwoFactorAuth d userId ps w of
     (Inl e, w1) \<Rightarrow> w1 = w
   | (Inr r, w1) \<Rightarrow>
       (\<exists>u. users w userId = Some u \<and>
            w1 = w\<lparr>users := (users w)(userId \<mapsto> u\<lparr>backupCodes := None,
                      twoFactorEnabled := False, twoFactorSecret := None\<rparr>),
                   revalidated := revalidated w @ [getProfileCacheTag d userId]\<rparr> \<and>
            r = ''Two factor authentication disabled'')"
  by (simp add: disableTwoFactorAuth_def prog_defs Let_def split: option.split sum.split)

subsection \<open>Runs in the example environment\<close>

lemmas example_defs = example_deps_def example_user_def example_user_pending_def
  example_user_enabled_def world_of_def truthy_def str_def

lemma example_codes_parse:
  "example_parse (example_stringify [''abcd123456'', ''0011223344'']) =
     Some (JArray [JString ''abcd123456'', JString ''0011223344''])"
  by (simp add: example_parse_def example_stringify_def dquote_def)

lemma example_lookup:
  "users (world_of example_user) ''u1'' = Some example_user"
  "users (world_of example_user_pending) ''u1'' = Some example_user_pending"
  "users (world_of example_user_enabled) ''u1'' = Some example_user_enabled"
  by (simp_all add: example_defs)

lemma example_invariant:
  "two_factor_invariant example_deps example_user"
  "two_factor_invariant example_deps example_user_pending"
  "two_factor_invariant example_deps example_user_enabled"
  by (simp_all add: two_factor_invariant_def example_defs)

lemma example_render_fits:
  assumes "length (encodeURIComponent a) \<le> 2000" and "length s = 32"
  shows "qrcode_toDataURL example_deps (authenticator_keyuri a ''Formbricks'' s) =
           Inr (''data:image/png;base64,'' @ authenticator_keyuri a ''Formbricks'' s)"
  using assms by (simp add: example_deps_def example_toDataURL_def keyuri_Formbricks)

lemma example_render_too_big:
  assumes "2331 < length a"
  shows "qrcode_toDataURL example_deps (authenticator_keyuri a ''Formbricks'' s) =
           Inl (Error ''The amount of data is too big to be stored in a QR Code'')"
  using assms length_encodeURIComponent [of a]
  by (simp add: example_deps_def example_toDataURL_def keyuri_Formbricks)

lemma example_labels:
  "or_else (email example_user) (or_else (name example_user) (id' example_user)) =
     ''ada@example.com''"
  "or_else (email example_user_enabled)
     (or_else (name example_user_enabled) (id' example_user_enabled)) = ''ada@example.com''"
  "or_else (email example_user_no_email)
     (or_else (name example_user_no_email) (id' example_user_no_email)) = ''Ada''"
  "or_else (email example_user_unnamed)
     (or_else (name example_user_unnamed) (id' example_user_unnamed)) = ''u1''"
  "or_else (email example_user_long_email)
     (or_else (name example_user_long_email) (id' example_user_long_email)) =
     example_long_email"
  by (simp_all add: or_else_def example_defs example_user_no_email_def
        example_user_unnamed_def example_user_long_email_def example_long_email_def)

lemma example_renders:
  "qrcode_toDataURL example_deps (authenticator_keyuri ''ada@example.com'' ''Formbricks''
      (fst (authenticator_generateSecret 20 en))) =
   Inr (''data:image/png;base64,'' @ authenticator_keyuri ''ada@example.com'' ''Formbricks''
      (fst (authenticator_generateSecret 20 en)))"
  "qrcode_toDataURL example_deps (authenticator_keyuri ''Ada'' ''Formbricks''
      (fst (authenticator_generateSecret 20 en))) =
   Inr (''data:image/png;base64,'' @ authenticator_keyuri ''Ada'' ''Formbricks''
      (fst (authenticator_generateSecret 20 en)))"
  "qrcode_toDataURL example_deps (authenticator_keyuri ''u1'' ''Formbricks''
      (fst (authenticator_generateSecret 20 en))) =
   Inr (''data:image/png;base64,'' @ authenticator_keyuri ''u1'' ''Formbricks''
      (fst (authenticator_generateSecret 20 en)))"
  by (rule example_render_fits, simp add: encode_examples, rule generated_secret_length)+

lemma example_long_email_length: "2331 < length example_long_email"
  by (simp add: example_long_email_def)

lemma example_long_email_guards:
  "users (world_of example_user_long_email) ''u1'' = Some example_user_long_email"
  "truthy (password example_user_long_email)"
  "identityProvider example_user_long_email = ''email''"
  "verifyPassword example_deps ''s3cret'' (str (password example_user_long_email))"
  "twoFactorEnabled example_user_long_email"
  by (simp_all add: example_defs example_user_long_email_def)

lemma example_setup_guards:
  "users (world_of example_user) ''u1'' = Some example_user"
  "truthy (password example_user)"
  "identityProvider example_user = ''email''"
  "verifyPassword example_deps ''s3cret'' (str (password example_user))"
  "users (world_of example_user_enabled) ''u1'' = Some example_user_enabled"
  "truthy (password example_user_enabled)"
  "identityProvider example_user_enabled = ''email''"
  "verifyPassword example_deps ''s3cret'' (str (password example_user_enabled))"
  "users (world_of example_user_no_email) ''u1'' = Some example_user_no_email"
  "truthy (password example_user_no_email)"
  "identityProvider example_user_no_email = ''email''"
  "verifyPassword example_deps ''s3cret'' (str (password example_user_no_email))"
  "users (world_of example_user_unnamed) ''u1'' = Some example_user_unnamed"
  "truthy (password example_user_unnamed)"
  "identityProvider example_user_unnamed = ''email''"
  "verifyPassword example_deps ''s3cret'' (str (password example_user_unnamed))"
  by (simp_all add: example_defs example_user_no_email_def example_user_unnamed_def)

lemma example_setup_succeeds:
  "\<exists>r w'. setupTwoFactorAuth example_deps example_entropy ''u1'' ''s3cret''
             (world_of example_user_enabled) = (Inr r, w')"
  by (simp add: setup_unfold example_setup_guards example_labels example_renders)

lemma example_enable_succeeds:
  "enableTwoFactorAuth example_deps ''u1'' ''123456'' (world_of example_user_pending) =
     (Inr ''Two factor authentication enabled'',
      \<lparr>users = [''u1'' \<mapsto> example_user_enabled], revalidated = [''profile-u1'']\<rparr>)"
  by (simp add: enable_unfold example_defs)

lemma example_disable_totp_succeeds:
  "disableTwoFactorAuth example_deps ''u1''
     \<lparr>code_param = ''123456'', password_param = ''s3cret'', backupCode_param = None\<rparr>
     (world_of example_user_enabled) =
     (Inr ''Two factor authentication disabled'',
      \<lparr>users = [''u1'' \<mapsto> example_user], revalidated = [''profile-u1'']\<rparr>)"
  by (simp add: disable_unfold example_defs)

lemma example_disable_backup_succeeds:
  "disableTwoFactorAuth example_deps ''u1''
     \<lparr>code_param = [], password_param = ''s3cret'',
      backupCode_param = Some ''ab-cd-12-34-56''\<rparr>
     (world_of example_user_enabled) =
     (Inr ''Two factor authentication disabled'',
      \<lparr>users = [''u1'' \<mapsto> example_user], revalidated = [''profile-u1'']\<rparr>)"
  by (simp add: disable_unfold replaceAll_hyphen example_defs example_codes_parse)



lemma example_disable_wrong_backup_code:
  "disableTwoFactorAuth example_deps ''u1''
     \<lparr>code_param = [], password_param = ''s3cret'', backupCode_param = Some ''abcd1234 56''\<rparr>
     (world_of example_user_enabled) =
     (Inl (Error ''Incorrect backup code''), world_of example_user_enabled)"
  by (simp add: disable_unfold replaceAll_hyphen example_defs example_codes_parse)

lemma example_disable_pending_wrong_password:
  "disableTwoFactorAuth example_deps ''u1''
     \<lparr>code_param = ''123456'', password_param = ''guess'', backupCode_param = None\<rparr>
     (world_of example_user_pending) =
     (Inl (Error ''Two factor authentication is not enabled''), world_of example_user_pending)"
  by (simp add: disable_unfold example_defs)

lemma example_setup_labels:
  "\<exists>r w'. setupTwoFactorAuth example_deps example_entropy ''u1'' ''s3cret''
             (world_of example_user) = (Inr r, w')"
  "\<exists>r w'. setupTwoFactorAuth example_deps example_entropy ''u1'' ''s3cret''
             (world_of example_user_no_email) = (Inr r, w')"
  "\<exists>r w'. setupTwoFactorAuth example_deps example_entropy ''u1'' ''s3cret''
             (world_of example_user_unnamed) = (Inr r, w')"
  by (simp_all add: setup_unfold example_setup_guards example_labels example_renders)

lemma example_setup_render_fails:
  "setupTwoFactorAuth example_deps example_entropy ''u1'' ''s3cret''
     (world_of example_user_long_email) =
   (Inl (Error ''The amount of data is too big to be stored in a QR Code''),
    (world_of example_user_long_email)\<lparr>users :=
       (users (world_of example_user_long_email))(''u1'' \<mapsto> example_user_long_email\<lparr>
          backupCodes := Some (symmetricEncrypt example_deps (JSON_stringify example_deps
             (fst (generateBackupCodes 10 (snd (authenticator_generateSecret 20 example_entropy)))))
             (FORMBRICKS_ENCRYPTION_KEY example_deps)),
          twoFactorEnabled := False,
          twoFactorSecret := Some (symmetricEncrypt example_deps
             (fst (authenticator_generateSecret 20 example_entropy))
             (FORMBRICKS_ENCRYPTION_KEY example_deps))\<rparr>)\<rparr>)"
  using example_long_email_guards
  by (simp add: setup_unfold example_labels
        example_render_too_big [OF example_long_email_length])


section \<open>The claims\<close>

text \<open>
  Claim C1. Take a user row that satisfies the invariant (two-factor authentication
  enabled implies a stored secret that decrypts to exactly 32 characters). Whenever
  setup, enable or disable returns successfully for that user, the row it leaves behind
  satisfies the invariant again, and no other row is touched: setup leaves a stored
  secret with two-factor authentication off, enable switches it on for a row whose
  decrypted secret has length 32, and disable switches it off and removes the secret.
\<close>

theorem two_factor_invariant_preserved:
  assumes "users w userId = Some u" and "two_factor_invariant d u"
  shows "(\<forall>r w'. setupTwoFactorAuth d en userId pw w = (Inr r, w') \<longrightarrow>
            (\<exists>u'. users w' = (users w)(userId \<mapsto> u') \<and> two_factor_invariant d u' \<and>
                  \<not> twoFactorEnabled u' \<and> twoFactorSecret u' \<noteq> None)) \<and>
         (\<forall>r w'. enableTwoFactorAuth d userId code w = (Inr r, w') \<longrightarrow>
            (\<exists>u'. users w' = (users w)(userId \<mapsto> u') \<and> two_factor_invariant d u' \<and>
                  twoFactorEnabled u' \<and>
                  length (symmetricDecrypt d (str (twoFactorSecret u'))
                            (FORMBRICKS_ENCRYPTION_KEY d)) = 32)) \<and>
         (\<forall>r w'. disableTwoFactorAuth d userId ps w = (Inr r, w') \<longrightarrow>
            (\<exists>u'. users w' = (users w)(userId \<mapsto> u') \<and> two_factor_invariant d u' \<and>
                  \<not> twoFactorEnabled u' \<and> twoFactorSecret u' = None))"
proof (intro conjI allI impI)
  fix r w'
  assume "setupTwoFactorAuth d en userId pw w = (Inr r, w')"
  with setup_cases [where d = d and en = en and userId = userId and pw = pw and w = w]
  show "\<exists>u'. users w' = (users w)(userId \<mapsto> u') \<and> two_factor_invariant d u' \<and>
             \<not> twoFactorEnabled u' \<and> twoFactorSecret u' \<noteq> None"
    by (auto simp: two_factor_invariant_def)
next
  fix r w'
  assume "enableTwoFactorAuth d userId code w = (Inr r, w')"
  with enable_cases [where d = d and userId = userId and code = code and w = w]
  show "\<exists>u'. users w' = (users w)(userId \<mapsto> u') \<and> two_factor_invariant d u' \<and>
             twoFactorEnabled u' \<and>
             length (symmetricDecrypt d (str (twoFactorSecret u'))
                       (FORMBRICKS_ENCRYPTION_KEY d)) = 32"
    by (auto simp: two_factor_invariant_def truthy_def split: option.splits)
next
  fix r w'
  assume "disableTwoFactorAuth d userId ps w = (Inr r, w')"
  with disable_cases [where d = d and userId = userId and ps = ps and w = w]
  show "\<exists>u'. users w' = (users w)(userId \<mapsto> u') \<and> two_factor_invariant d u' \<and>
             \<not> twoFactorEnabled u' \<and> twoFactorSecret u' = None"
    by (auto simp: two_factor_invariant_def)
qed

theorem two_factor_invariant_preserved_witness:
  "(\<exists>r w' u'. setupTwoFactorAuth example_deps example_entropy ''u1'' ''s3cret''
                 (world_of example_user_enabled) = (Inr r, w') \<and>
               users w' ''u1'' = Some u' \<and> two_factor_invariant example_deps u' \<and>
               \<not> twoFactorEnabled u') \<and>
   (\<exists>r w' u'. enableTwoFactorAuth example_deps ''u1'' ''123456''
                 (world_of example_user_pending) = (Inr r, w') \<and>
               users w' ''u1'' = Some u' \<and> two_factor_invariant example_deps u' \<and>
               twoFactorEnabled u') \<and>
   (\<exists>r w' u'. disableTwoFactorAuth example_deps ''u1''
                 \<lparr>code_param = ''123456'', password_param = ''s3cret'',
                  backupCode_param = None\<rparr>
                 (world_of example_user_enabled) = (Inr r, w') \<and>
               users w' ''u1'' = Some u' \<and> two_factor_invariant example_deps u' \<and>
               twoFactorSecret u' = None)"
proof (intro conjI)
  from example_setup_succeeds obtain r w'
    where run: "setupTwoFactorAuth example_deps example_entropy ''u1'' ''s3cret''
                  (world_of example_user_enabled) = (Inr r, w')"
    by blast
  from two_factor_invariant_preserved [OF example_lookup(3) example_invariant(3),
      where en = example_entropy and pw = "''s3cret''", THEN conjunct1, rule_format, OF run]
  obtain u' where "users w' = (users (world_of example_user_enabled))(''u1'' \<mapsto> u')"
      and "two_factor_invariant example_deps u'" and "\<not> twoFactorEnabled u'"
    by blast
  then have "users w' ''u1'' = Some u' \<and> two_factor_invariant example_deps u' \<and>
               \<not> twoFactorEnabled u'"
    by simp
  with run show "\<exists>r w' u'. setupTwoFactorAuth example_deps example_entropy ''u1'' ''s3cret''
                 (world_of example_user_enabled) = (Inr r, w') \<and>
               users w' ''u1'' = Some u' \<and> two_factor_invariant example_deps u' \<and>
               \<not> twoFactorEnabled u'"
    by blast
next
  from two_factor_invariant_preserved [OF example_lookup(2) example_invariant(2),
      where code = "''123456''", THEN conjunct2, THEN conjunct1, rule_format,
      OF example_enable_succeeds]
  obtain u' where "[''u1'' \<mapsto> example_user_enabled] =
             (users (world_of example_user_pending))(''u1'' \<mapsto> u')"
      and "two_factor_invariant example_deps u'" and "twoFactorEnabled u'"
    by auto
  then have "[''u1'' \<mapsto> example_user_enabled] ''u1'' = Some u' \<and>
      two_factor_invariant example_deps u' \<and> twoFactorEnabled u'"
    by simp
  then show "\<exists>r w' u'. enableTwoFactorAuth example_deps ''u1'' ''123456''
                 (world_of example_user_pending) = (Inr r, w') \<and>
               users w' ''u1'' = Some u' \<and> two_factor_invariant example_deps u' \<and>
               twoFactorEnabled u'"
    unfolding example_enable_succeeds by auto
next
  from two_factor_invariant_preserved [OF example_lookup(3) example_invariant(3),
      THEN conjunct2, THEN conjunct2, rule_format, OF example_disable_totp_succeeds]
  obtain u' where "[''u1'' \<mapsto> example_user] =
             (users (world_of example_user_enabled))(''u1'' \<mapsto> u')"
      and "two_factor_invariant example_deps u'" and "twoFactorSecret u' = None"
    by auto
  then have "[''u1'' \<mapsto> example_user] ''u1'' = Some u' \<and>
      two_factor_invariant example_deps u' \<and> twoFactorSecret u' = None"
    by simp
  then show "\<exists>r w' u'. disableTwoFactorAuth example_deps ''u1''
                 \<lparr>code_param = ''123456'', password_param = ''s3cret'',
                  backupCode_param = None\<rparr>
                 (world_of example_user_enabled) = (Inr r, w') \<and>
               users w' ''u1'' = Some u' \<and> two_factor_invariant example_deps u' \<and>
               twoFactorSecret u' = None"
    unfolding example_disable_totp_succeeds by auto
qed

text \<open>
  Claim C2. Whenever disable returns successfully, through the backup-code branch or
  through the TOTP branch, the state it leaves is the state before with the user's row
  rewritten to \<^verbatim>\<open>backupCodes = null\<close>, \<^verbatim>\<open>twoFactorSecret = null\<close>,
  \<^verbatim>\<open>twoFactorEnabled = false\<close>, and with the profile cache tag of that user id
  invalidated. The stored backup codes are cleared also when the TOTP code was the
  second factor.
\<close>

theorem disable_clears_everything:
  assumes "disableTwoFactorAuth d userId ps w = (Inr r, w')"
  shows "\<exists>u. users w userId = Some u \<and>
           users w' = (users w)(userId \<mapsto> u\<lparr>backupCodes := None, twoFactorEnabled := False,
                                              twoFactorSecret := None\<rparr>) \<and>
           revalidated w' = revalidated w @ [getProfileCacheTag d userId]"
  using disable_cases [where d = d and userId = userId and ps = ps and w = w] assms by auto

theorem disable_clears_everything_witness:
  "backupCodes example_user_enabled \<noteq> None \<and>
   disableTwoFactorAuth example_deps ''u1''
     \<lparr>code_param = ''123456'', password_param = ''s3cret'', backupCode_param = None\<rparr>
     (world_of example_user_enabled) =
     (Inr ''Two factor authentication disabled'',
      \<lparr>users = [''u1'' \<mapsto> example_user], revalidated = [''profile-u1'']\<rparr>) \<and>
   (\<exists>u. users (world_of example_user_enabled) ''u1'' = Some u \<and>
        users \<lparr>users = [''u1'' \<mapsto> example_user], revalidated = [''profile-u1'']\<rparr> =
          (users (world_of example_user_enabled))(''u1'' \<mapsto>
             u\<lparr>backupCodes := None, twoFactorEnabled := False, twoFactorSecret := None\<rparr>) \<and>
        revalidated \<lparr>users = [''u1'' \<mapsto> example_user], revalidated = [''profile-u1'']\<rparr> =
          revalidated (world_of example_user_enabled) @
            [getProfileCacheTag example_deps ''u1''])"
proof (intro conjI)
  show "backupCodes example_user_enabled \<noteq> None"
    by (simp add: example_defs)
  show "disableTwoFactorAuth example_deps ''u1''
     \<lparr>code_param = ''123456'', password_param = ''s3cret'', backupCode_param = None\<rparr>
     (world_of example_user_enabled) =
     (Inr ''Two factor authentication disabled'',
      \<lparr>users = [''u1'' \<mapsto> example_user], revalidated = [''profile-u1'']\<rparr>)"
    by (rule example_disable_totp_succeeds)
  show "\<exists>u. users (world_of example_user_enabled) ''u1'' = Some u \<and>
        users \<lparr>users = [''u1'' \<mapsto> example_user], revalidated = [''profile-u1'']\<rparr> =
          (users (world_of example_user_enabled))(''u1'' \<mapsto>
             u\<lparr>backupCodes := None, twoFactorEnabled := False, twoFactorSecret := None\<rparr>) \<and>
        revalidated \<lparr>users = [''u1'' \<mapsto> example_user], revalidated = [''profile-u1'']\<rparr> =
          revalidated (world_of example_user_enabled) @
            [getProfileCacheTag example_deps ''u1'']"
    by (rule disable_clears_everything [OF example_disable_totp_succeeds])
qed

text \<open>
  Claim C3, as stated: for every user row and every call of disable whose password does
  not match the stored hash, the call fails with the incorrect-password error. This
  fails on a row that has completed setup but not enable: the guard on
  \<^verbatim>\<open>twoFactorEnabled\<close> comes before the password check, so a wrong password there is
  answered with the not-enabled error.
\<close>

theorem wrong_password_other_error_counterexample:
  "users (world_of example_user_pending) ''u1'' = Some example_user_pending \<and>
   \<not> verifyPassword example_deps ''guess'' (str (password example_user_pending)) \<and>
   disableTwoFactorAuth example_deps ''u1''
     \<lparr>code_param = ''123456'', password_param = ''guess'', backupCode_param = None\<rparr>
     (world_of example_user_pending) =
     (Inl (Error ''Two factor authentication is not enabled''), world_of example_user_pending) \<and>
   fst (disableTwoFactorAuth example_deps ''u1''
     \<lparr>code_param = ''123456'', password_param = ''guess'', backupCode_param = None\<rparr>
     (world_of example_user_pending)) \<noteq> Inl (Error ''Incorrect password'')"
  by (simp add: example_disable_pending_wrong_password) (simp add: example_defs)

text \<open>
  Claim C3, amended. For every user row that has a password, has two-factor
  authentication enabled and has identity provider \<^verbatim>\<open>email\<close>, a call of disable whose
  password does not match the stored hash fails with \<^verbatim>\<open>Incorrect password\<close> and
  leaves the state unchanged, whatever \<^verbatim>\<open>code\<close> and \<^verbatim>\<open>backupCode\<close> are. Neither
  second factor is verified first: the outcome is the same for every TOTP checker,
  every decryption function and every JSON parser.
\<close>

theorem wrong_password_rejected_first:
  assumes "users w userId = Some u"
    and "truthy (password u)"
    and "twoFactorEnabled u"
    and "identityProvider u = ''email''"
    and "\<not> verifyPassword d (password_param ps) (str (password u))"
  shows "disableTwoFactorAuth d userId ps w = (Inl (Error ''Incorrect password''), w) \<and>
         disableTwoFactorAuth
           (d\<lparr>totpAuthenticatorCheck := t, symmetricDecrypt := dec, JSON_parse := parse\<rparr>)
           userId ps w = (Inl (Error ''Incorrect password''), w)"
  using assms by (simp add: disable_unfold)

theorem wrong_password_rejected_first_witness:
  "(\<not> verifyPassword example_deps ''guess'' (str (password example_user_enabled))) \<and>
   disableTwoFactorAuth example_deps ''u1''
     \<lparr>code_param = ''123456'', password_param = ''guess'', backupCode_param = None\<rparr>
     (world_of example_user_enabled) =
     (Inl (Error ''Incorrect password''), world_of example_user_enabled) \<and>
   disableTwoFactorAuth example_deps ''u1''
     \<lparr>code_param = [], password_param = ''guess'', backupCode_param = Some ''abcd123456''\<rparr>
     (world_of example_user_enabled) =
     (Inl (Error ''Incorrect password''), world_of example_user_enabled)"
proof -
  have pw: "truthy (password example_user_enabled)"
    and en: "twoFactorEnabled example_user_enabled"
    and ip: "identityProvider example_user_enabled = ''email''"
    by (simp_all add: example_defs)
  have bad: "\<not> verifyPassword example_deps ''guess'' (str (password example_user_enabled))"
    by (simp add: example_defs)
  have bad1: "\<not> verifyPassword example_deps
       (password_param \<lparr>code_param = ''123456'', password_param = ''guess'',
          backupCode_param = None\<rparr>) (str (password example_user_enabled))"
    using bad by simp
  have bad2: "\<not> verifyPassword example_deps
       (password_param \<lparr>code_param = [], password_param = ''guess'',
          backupCode_param = Some ''abcd123456''\<rparr>) (str (password example_user_enabled))"
    using bad by simp
  from wrong_password_rejected_first [OF example_lookup(3) pw en ip bad1, THEN conjunct1]
    wrong_password_rejected_first [OF example_lookup(3) pw en ip bad2, THEN conjunct1] bad
  show ?thesis by blast
qed

text \<open>
  Claim C4, as stated: the inputs \<^verbatim>\<open>ab-cd-12-34-56\<close> and \<^verbatim>\<open>abcd1234 56\<close> both
  normalise to \<^verbatim>\<open>abcd123456\<close> and are both accepted when that code is stored. The
  second input contains a space, and only hyphens are removed: it is left as it is and
  rejected although \<^verbatim>\<open>abcd123456\<close> is in the stored list.
\<close>

theorem space_is_not_removed_counterexample:
  "JSON_parse example_deps
     (symmetricDecrypt example_deps (str (backupCodes example_user_enabled))
        (FORMBRICKS_ENCRYPTION_KEY example_deps)) =
     Some (JArray [JString ''abcd123456'', JString ''0011223344'']) \<and>
   replaceAll CHR ''-'' [] ''abcd1234 56'' = ''abcd1234 56'' \<and>
   disableTwoFactorAuth example_deps ''u1''
     \<lparr>code_param = [], password_param = ''s3cret'', backupCode_param = Some ''abcd1234 56''\<rparr>
     (world_of example_user_enabled) =
     (Inl (Error ''Incorrect backup code''), world_of example_user_enabled)"
  by (simp add: example_disable_wrong_backup_code replaceAll_hyphen)
     (simp add: example_defs example_codes_parse)

text \<open>
  Claim C4, amended. On a call that reaches the backup-code branch (guards passed, a
  non-empty \<^verbatim>\<open>backupCode\<close>, a configured key, and stored backup codes that decrypt
  and parse to a list of strings), disable succeeds if and only if the input with all
  hyphens removed is a member of that list, and fails with \<^verbatim>\<open>Incorrect backup code\<close>
  otherwise. \<^verbatim>\<open>ab-cd-12-34-56\<close> normalises to \<^verbatim>\<open>abcd123456\<close>;
  \<^verbatim>\<open>abcd1234 56\<close> normalises to itself, since a space is not a hyphen.
\<close>

theorem backup_code_accepted_iff_member:
  assumes "users w userId = Some u"
    and "truthy (password u)"
    and "twoFactorEnabled u"
    and "identityProvider u = ''email''"
    and "verifyPassword d (password_param ps) (str (password u))"
    and "backupCode_param ps = Some bc"
    and "bc \<noteq> []"
    and "FORMBRICKS_ENCRYPTION_KEY d \<noteq> []"
    and "truthy (backupCodes u)"
    and "JSON_parse d (symmetricDecrypt d (str (backupCodes u))
           (FORMBRICKS_ENCRYPTION_KEY d)) = Some (JArray (map JString codes))"
  shows "((\<exists>w'. disableTwoFactorAuth d userId ps w =
                  (Inr ''Two factor authentication disabled'', w')) \<longleftrightarrow>
            filter (\<lambda>c. c \<noteq> CHR ''-'') bc \<in> set codes) \<and>
         (filter (\<lambda>c. c \<noteq> CHR ''-'') bc \<notin> set codes \<longrightarrow>
            disableTwoFactorAuth d userId ps w = (Inl (Error ''Incorrect backup code''), w)) \<and>
         filter (\<lambda>c. c \<noteq> CHR ''-'') ''ab-cd-12-34-56'' = ''abcd123456'' \<and>
         filter (\<lambda>c. c \<noteq> CHR ''-'') ''abcd1234 56'' = ''abcd1234 56''"
proof -
  have member: "JString x \<in> JString ` set codes \<longleftrightarrow> x \<in> set codes" for x
    by auto
  have supplied: "truthy (backupCode_param ps)" "str (backupCode_param ps) = bc"
    using assms(6,7) by (simp_all add: truthy_def str_def)
  show ?thesis
    using assms(1-5,8-10) supplied
    by (simp add: disable_unfold replaceAll_hyphen array_indexOf_absent member)
qed

theorem backup_code_accepted_iff_member_witness:
  "filter (\<lambda>c. c \<noteq> CHR ''-'') ''ab-cd-12-34-56'' \<in> set [''abcd123456'', ''0011223344''] \<and>
   (\<exists>w'. disableTwoFactorAuth example_deps ''u1''
     \<lparr>code_param = [], password_param = ''s3cret'',
      backupCode_param = Some ''ab-cd-12-34-56''\<rparr>
     (world_of example_user_enabled) = (Inr ''Two factor authentication disabled'', w')) \<and>
   filter (\<lambda>c. c \<noteq> CHR ''-'') ''abcd1234 56'' \<notin> set [''abcd123456'', ''0011223344''] \<and>
   disableTwoFactorAuth example_deps ''u1''
     \<lparr>code_param = [], password_param = ''s3cret'',
      backupCode_param = Some ''abcd1234 56''\<rparr>
     (world_of example_user_enabled) =
     (Inl (Error ''Incorrect backup code''), world_of example_user_enabled)"
proof -
  have pw: "truthy (password example_user_enabled)"
    and en: "twoFactorEnabled example_user_enabled"
    and ip: "identityProvider example_user_enabled = ''email''"
    and key: "FORMBRICKS_ENCRYPTION_KEY example_deps \<noteq> []"
    and bcs: "truthy (backupCodes example_user_enabled)"
    by (simp_all add: example_defs)
  have ok1: "verifyPassword example_deps
       (password_param \<lparr>code_param = [], password_param = ''s3cret'',
          backupCode_param = Some ''ab-cd-12-34-56''\<rparr>)
       (str (password example_user_enabled))"
    and ok2: "verifyPassword example_deps
       (password_param \<lparr>code_param = [], password_param = ''s3cret'',
          backupCode_param = Some ''abcd1234 56''\<rparr>)
       (str (password example_user_enabled))"
    by (simp_all add: example_defs)
  have stored: "JSON_parse example_deps
      (symmetricDecrypt example_deps (str (backupCodes example_user_enabled))
        (FORMBRICKS_ENCRYPTION_KEY example_deps)) =
      Some (JArray (map JString [''abcd123456'', ''0011223344'']))"
    by (simp add: example_defs example_codes_parse)
  have in1: "filter (\<lambda>c. c \<noteq> CHR ''-'') ''ab-cd-12-34-56'' \<in>
      set [''abcd123456'', ''0011223344'']"
    and out2: "filter (\<lambda>c. c \<noteq> CHR ''-'') ''abcd1234 56'' \<notin>
      set [''abcd123456'', ''0011223344'']"
    by simp_all
  have bc1: "backupCode_param \<lparr>code_param = [], password_param = ''s3cret'',
          backupCode_param = Some ''ab-cd-12-34-56''\<rparr> = Some ''ab-cd-12-34-56''"
    and bc2: "backupCode_param \<lparr>code_param = [], password_param = ''s3cret'',
          backupCode_param = Some ''abcd1234 56''\<rparr> = Some ''abcd1234 56''"
    and ne1: "''ab-cd-12-34-56'' \<noteq> []" and ne2: "''abcd1234 56'' \<noteq> []"
    by simp_all
  note first = backup_code_accepted_iff_member
    [OF example_lookup(3) pw en ip ok1 bc1 ne1 key bcs stored, THEN conjunct1]
  note second = backup_code_accepted_iff_member
    [OF example_lookup(3) pw en ip ok2 bc2 ne2 key bcs stored,
     THEN conjunct2, THEN conjunct1]
  from first in1 have "\<exists>w'. disableTwoFactorAuth example_deps ''u1''
     \<lparr>code_param = [], password_param = ''s3cret'',
      backupCode_param = Some ''ab-cd-12-34-56''\<rparr>
     (world_of example_user_enabled) = (Inr ''Two factor authentication disabled'', w')"
    by simp
  moreover from second out2 have "disableTwoFactorAuth example_deps ''u1''
     \<lparr>code_param = [], password_param = ''s3cret'',
      backupCode_param = Some ''abcd1234 56''\<rparr>
     (world_of example_user_enabled) =
     (Inl (Error ''Incorrect backup code''), world_of example_user_enabled)"
    by simp
  ultimately show ?thesis using in1 out2 by blast
qed




text \<open>
  Claim C6, as stated: for every user that exists, has a password hash, has identity
  provider \<^verbatim>\<open>email\<close> and supplies the matching password, setup returns the secret, the
  key URI, the image and the backup codes. For a user whose e-mail address is too long
  for a QR code all four conditions hold, and the call does not return: it fails with
  the renderer's error.
\<close>

theorem setup_does_not_return_counterexample:
  "users (world_of example_user_long_email) ''u1'' = Some example_user_long_email \<and>
   truthy (password example_user_long_email) \<and>
   identityProvider example_user_long_email = ''email'' \<and>
   verifyPassword example_deps ''s3cret'' (str (password example_user_long_email)) \<and>
   fst (setupTwoFactorAuth example_deps example_entropy ''u1'' ''s3cret''
          (world_of example_user_long_email)) =
     Inl (Error ''The amount of data is too big to be stored in a QR Code'')"
  by (simp add: example_setup_render_fails example_long_email_guards)

text \<open>
  Claim C6, amended. For every user that exists, has a password hash, has identity
  provider \<^verbatim>\<open>email\<close> and supplies the matching password, setup draws a secret of
  exactly 32 characters and after it exactly 10 backup codes of 10 hexadecimal digits
  each, rewrites the row with the encryption of the serialised backup codes, the
  encryption of the secret and \<^verbatim>\<open>twoFactorEnabled = false\<close>, whatever the flag was
  before, and then awaits the QR image of the key URI: when the renderer yields an
  image, the call returns the plaintext secret, the key URI, the image and the plaintext
  backup codes; when it rejects, the call fails with that error.
\<close>

theorem setup_generates_persists_then_renders:
  assumes "users w userId = Some u"
    and "truthy (password u)"
    and "identityProvider u = ''email''"
    and "verifyPassword d pw (str (password u))"
  shows "\<exists>s cs uri.
           s = fst (authenticator_generateSecret 20 en) \<and>
           cs = fst (generateBackupCodes 10 (snd (authenticator_generateSecret 20 en))) \<and>
           uri = authenticator_keyuri (or_else (email u) (or_else (name u) (id' u)))
                   ''Formbricks'' s \<and>
           length s = 32 \<and> length cs = 10 \<and> (\<forall>c\<in>set cs. length c = 10 \<and> is_hex c) \<and>
           setupTwoFactorAuth d en userId pw w =
             (case qrcode_toDataURL d uri of
                Inl e \<Rightarrow> Inl e
              | Inr img \<Rightarrow> Inr \<lparr>secret_result = s, keyUri_result = uri,
                                dataUri_result = img, backupCodes_result = cs\<rparr>,
              w\<lparr>users := (users w)(userId \<mapsto> u\<lparr>
                   backupCodes := Some (symmetricEncrypt d (JSON_stringify d cs)
                                          (FORMBRICKS_ENCRYPTION_KEY d)),
                   twoFactorEnabled := False,
                   twoFactorSecret := Some (symmetricEncrypt d s
                                              (FORMBRICKS_ENCRYPTION_KEY d))\<rparr>)\<rparr>)"
proof (intro exI conjI)
  show "fst (authenticator_generateSecret 20 en) = fst (authenticator_generateSecret 20 en)"
    by (rule refl)
  show "fst (generateBackupCodes 10 (snd (authenticator_generateSecret 20 en))) =
        fst (generateBackupCodes 10 (snd (authenticator_generateSecret 20 en)))"
    by (rule refl)
  show "authenticator_keyuri (or_else (email u) (or_else (name u) (id' u))) ''Formbricks''
          (fst (authenticator_generateSecret 20 en)) =
        authenticator_keyuri (or_else (email u) (or_else (name u) (id' u))) ''Formbricks''
          (fst (authenticator_generateSecret 20 en))"
    by (rule refl)
  show "length (fst (authenticator_generateSecret 20 en)) = 32"
    by (rule generated_secret_length)
  show "length (fst (generateBackupCodes 10 (snd (authenticator_generateSecret 20 en)))) = 10"
    by (rule length_generateBackupCodes)
  show "\<forall>c\<in>set (fst (generateBackupCodes 10 (snd (authenticator_generateSecret 20 en)))).
          length c = 10 \<and> is_hex c"
    using generateBackupCodes_hex by blast
  show "setupTwoFactorAuth d en userId pw w =
     (case qrcode_toDataURL d (authenticator_keyuri
              (or_else (email u) (or_else (name u) (id' u))) ''Formbricks''
              (fst (authenticator_generateSecret 20 en))) of
        Inl e \<Rightarrow> Inl e
      | Inr img \<Rightarrow>
          Inr \<lparr>secret_result = fst (authenticator_generateSecret 20 en),
               keyUri_result = authenticator_keyuri
                  (or_else (email u) (or_else (name u) (id' u))) ''Formbricks''
                  (fst (authenticator_generateSecret 20 en)),
               dataUri_result = img,
               backupCodes_result =
                 fst (generateBackupCodes 10 (snd (authenticator_generateSecret 20 en)))\<rparr>,
      w\<lparr>users := (users w)(userId \<mapsto> u\<lparr>
           backupCodes := Some (symmetricEncrypt d (JSON_stringify d
              (fst (generateBackupCodes 10 (snd (authenticator_generateSecret 20 en)))))
              (FORMBRICKS_ENCRYPTION_KEY d)),
           twoFactorEnabled := False,
           twoFactorSecret := Some (symmetricEncrypt d
              (fst (authenticator_generateSecret 20 en))
              (FORMBRICKS_ENCRYPTION_KEY d))\<rparr>)\<rparr>)"
    using assms by (simp add: setup_unfold)
qed

theorem setup_generates_persists_then_renders_witness:
  "twoFactorEnabled example_user_enabled \<and>
   (\<exists>s cs uri.
      s = fst (authenticator_generateSecret 20 example_entropy) \<and>
      cs = fst (generateBackupCodes 10
                  (snd (authenticator_generateSecret 20 example_entropy))) \<and>
      uri = authenticator_keyuri
              (or_else (email example_user_enabled)
                 (or_else (name example_user_enabled) (id' example_user_enabled)))
              ''Formbricks'' s \<and>
      length s = 32 \<and> length cs = 10 \<and> (\<forall>c\<in>set cs. length c = 10 \<and> is_hex c) \<and>
      setupTwoFactorAuth example_deps example_entropy ''u1'' ''s3cret''
          (world_of example_user_enabled) =
        (case qrcode_toDataURL example_deps uri of
           Inl e \<Rightarrow> Inl e
         | Inr img \<Rightarrow> Inr \<lparr>secret_result = s, keyUri_result = uri,
                           dataUri_result = img, backupCodes_result = cs\<rparr>,
         (world_of example_user_enabled)\<lparr>users :=
            (users (world_of example_user_enabled))(''u1'' \<mapsto> example_user_enabled\<lparr>
               backupCodes := Some (symmetricEncrypt example_deps
                                      (JSON_stringify example_deps cs)
                                      (FORMBRICKS_ENCRYPTION_KEY example_deps)),
               twoFactorEnabled := False,
               twoFactorSecret := Some (symmetricEncrypt example_deps s
                                          (FORMBRICKS_ENCRYPTION_KEY example_deps))\<rparr>)\<rparr>)) \<and>
   qrcode_toDataURL example_deps
     (authenticator_keyuri
        (or_else (email example_user_enabled)
           (or_else (name example_user_enabled) (id' example_user_enabled)))
        ''Formbricks'' (fst (authenticator_generateSecret 20 example_entropy))) =
     Inr (''data:image/png;base64,'' @ authenticator_keyuri ''ada@example.com''
        ''Formbricks'' (fst (authenticator_generateSecret 20 example_entropy)))"
proof (intro conjI)
  show "twoFactorEnabled example_user_enabled"
    by (simp add: example_defs)
  show "\<exists>s cs uri.
      s = fst (authenticator_generateSecret 20 example_entropy) \<and>
      cs = fst (generateBackupCodes 10
                  (snd (authenticator_generateSecret 20 example_entropy))) \<and>
      uri = authenticator_keyuri
              (or_else (email example_user_enabled)
                 (or_else (name example_user_enabled) (id' example_user_enabled)))
              ''Formbricks'' s \<and>
      length s = 32 \<and> length cs = 10 \<and> (\<forall>c\<in>set cs. length c = 10 \<and> is_hex c) \<and>
      setupTwoFactorAuth example_deps example_entropy ''u1'' ''s3cret''
          (world_of example_user_enabled) =
        (case qrcode_toDataURL example_deps uri of
           Inl e \<Rightarrow> Inl e
         | Inr img \<Rightarrow> Inr \<lparr>secret_result = s, keyUri_result = uri,
                           dataUri_result = img, backupCodes_result = cs\<rparr>,
         (world_of example_user_enabled)\<lparr>users :=
            (users (world_of example_user_enabled))(''u1'' \<mapsto> example_user_enabled\<lparr>
               backupCodes := Some (symmetricEncrypt example_deps
                                      (JSON_stringify example_deps cs)
                                      (FORMBRICKS_ENCRYPTION_KEY example_deps)),
               twoFactorEnabled := False,
               twoFactorSecret := Some (symmetricEncrypt example_deps s
                                          (FORMBRICKS_ENCRYPTION_KEY example_deps))\<rparr>)\<rparr>)"
    by (rule setup_generates_persists_then_renders
          [OF example_setup_guards(5) example_setup_guards(6) example_setup_guards(7)
              example_setup_guards(8)])
  show "qrcode_toDataURL example_deps
     (authenticator_keyuri
        (or_else (email example_user_enabled)
           (or_else (name example_user_enabled) (id' example_user_enabled)))
        ''Formbricks'' (fst (authenticator_generateSecret 20 example_entropy))) =
     Inr (''data:image/png;base64,'' @ authenticator_keyuri ''ada@example.com''
        ''Formbricks'' (fst (authenticator_generateSecret 20 example_entropy)))"
    by (simp add: example_labels example_renders)
qed




text \<open>
  Claim C8. On every successful setup the returned key URI is the \<^verbatim>\<open>otpauth://\<close> URI
  for a time-based code with issuer \<^verbatim>\<open>Formbricks\<close>: the label is \<^verbatim>\<open>Formbricks:\<close>
  followed by the account, the query carries the returned secret and the issuer. The
  account is the user's e-mail address if it is set and non-empty, otherwise the user's
  name if it is set and non-empty, otherwise the user's id. The returned data URI is the
  image that \<^verbatim>\<open>qrcode.toDataURL\<close> produced for that key URI.
\<close>

theorem setup_key_uri_otpauth:
  assumes "setupTwoFactorAuth d en userId pw w = (Inr r, w')"
  shows "\<exists>u label. users w userId = Some u \<and>
           label = (if truthy (email u) then str (email u)
                    else if truthy (name u) then str (name u)
                    else id' u) \<and>
           keyUri_result r = authenticator_keyuri label ''Formbricks'' (secret_result r) \<and>
           keyUri_result r =
             ''otpauth://totp/Formbricks:'' @ encodeURIComponent label
               @ ''?secret='' @ secret_result r
               @ ''&period=30&digits=6&algorithm=SHA1&issuer=Formbricks'' \<and>
           qrcode_toDataURL d (keyUri_result r) = Inr (dataUri_result r)"
  using setup_cases [where d = d and en = en and userId = userId and pw = pw and w = w] assms
  by (auto simp: or_else_def keyuri_Formbricks)

theorem setup_key_uri_otpauth_witness:
  "(\<exists>r w'. setupTwoFactorAuth example_deps example_entropy ''u1'' ''s3cret''
              (world_of example_user) = (Inr r, w') \<and>
            keyUri_result r = ''otpauth://totp/Formbricks:ada%40example.com?secret=''
              @ secret_result r @ ''&period=30&digits=6&algorithm=SHA1&issuer=Formbricks'' \<and>
            qrcode_toDataURL example_deps (keyUri_result r) = Inr (dataUri_result r)) \<and>
   (\<exists>r w'. setupTwoFactorAuth example_deps example_entropy ''u1'' ''s3cret''
              (world_of example_user_no_email) = (Inr r, w') \<and>
            keyUri_result r = ''otpauth://totp/Formbricks:Ada?secret=''
              @ secret_result r @ ''&period=30&digits=6&algorithm=SHA1&issuer=Formbricks'') \<and>
   (\<exists>r w'. setupTwoFactorAuth example_deps example_entropy ''u1'' ''s3cret''
              (world_of example_user_unnamed) = (Inr r, w') \<and>
            keyUri_result r = ''otpauth://totp/Formbricks:u1?secret=''
              @ secret_result r @ ''&period=30&digits=6&algorithm=SHA1&issuer=Formbricks'')"
proof (intro conjI)
  from example_setup_labels(1) obtain r w'
    where run: "setupTwoFactorAuth example_deps example_entropy ''u1'' ''s3cret''
              (world_of example_user) = (Inr r, w')"
    by blast
  from setup_key_uri_otpauth [OF run]
  have "keyUri_result r = ''otpauth://totp/Formbricks:ada%40example.com?secret=''
              @ secret_result r @ ''&period=30&digits=6&algorithm=SHA1&issuer=Formbricks'' \<and>
        qrcode_toDataURL example_deps (keyUri_result r) = Inr (dataUri_result r)"
    by (auto simp: world_of_def example_user_def truthy_def str_def encode_examples)
  with run show "\<exists>r w'. setupTwoFactorAuth example_deps example_entropy ''u1'' ''s3cret''
              (world_of example_user) = (Inr r, w') \<and>
            keyUri_result r = ''otpauth://totp/Formbricks:ada%40example.com?secret=''
              @ secret_result r @ ''&period=30&digits=6&algorithm=SHA1&issuer=Formbricks'' \<and>
            qrcode_toDataURL example_deps (keyUri_result r) = Inr (dataUri_result r)"
    by blast
next
  from example_setup_labels(2) obtain r w'
    where run: "setupTwoFactorAuth example_deps example_entropy ''u1'' ''s3cret''
              (world_of example_user_no_email) = (Inr r, w')"
    by blast
  from setup_key_uri_otpauth [OF run]
  have "keyUri_result r = ''otpauth://totp/Formbricks:Ada?secret=''
              @ secret_result r @ ''&period=30&digits=6&algorithm=SHA1&issuer=Formbricks''"
    by (auto simp: world_of_def example_user_def example_user_no_email_def truthy_def str_def
          encode_examples)
  with run show "\<exists>r w'. setupTwoFactorAuth example_deps example_entropy ''u1'' ''s3cret''
              (world_of example_user_no_email) = (Inr r, w') \<and>
            keyUri_result r = ''otpauth://totp/Formbricks:Ada?secret=''
              @ secret_result r @ ''&period=30&digits=6&algorithm=SHA1&issuer=Formbricks''"
    by blast
next
  from example_setup_labels(3) obtain r w'
    where run: "setupTwoFactorAuth example_deps example_entropy ''u1'' ''s3cret''
              (world_of example_user_unnamed) = (Inr r, w')"
    by blast
  from setup_key_uri_otpauth [OF run]
  have "keyUri_result r = ''otpauth://totp/Formbricks:u1?secret=''
              @ secret_result r @ ''&period=30&digits=6&algorithm=SHA1&issuer=Formbricks''"
    by (auto simp: world_of_def example_user_def example_user_unnamed_def truthy_def str_def
          encode_examples)
  with run show "\<exists>r w'. setupTwoFactorAuth example_deps example_entropy ''u1'' ''s3cret''
              (world_of example_user_unnamed) = (Inr r, w') \<and>
            keyUri_result r = ''otpauth://totp/Formbricks:u1?secret=''
              @ secret_result r @ ''&period=30&digits=6&algorithm=SHA1&issuer=Formbricks''"
    by blast
qed

text \<open>
  Claim C9. A call of disable with \<^verbatim>\<open>backupCode\<close> equal to the empty string behaves
  exactly as the same call without a \<^verbatim>\<open>backupCode\<close>: same result, same state. The
  backup-code branch is not taken; a call that reaches the second-factor block with an
  empty \<^verbatim>\<open>code\<close> as well fails with \<^verbatim>\<open>Second factor required\<close>.
\<close>

theorem empty_backup_code_is_no_backup_code:
  "disableTwoFactorAuth d userId (ps\<lparr>backupCode_param := Some []\<rparr>) w =
     disableTwoFactorAuth d userId (ps\<lparr>backupCode_param := None\<rparr>) w \<and>
   (users w userId = Some u \<and> truthy (password u) \<and> twoFactorEnabled u \<and>
    identityProvider u = ''email'' \<and>
    verifyPassword d (password_param ps) (str (password u)) \<and> code_param ps = [] \<longrightarrow>
      disableTwoFactorAuth d userId (ps\<lparr>backupCode_param := Some []\<rparr>) w =
        (Inl (Error ''Second factor required''), w))"
proof -
  have absent: "truthy (Some []) = truthy None"
    by (simp add: truthy_def)
  show ?thesis
    by (simp add: disable_unfold absent cong: if_cong option.case_cong sum.case_cong)
      (simp add: truthy_def)
qed

theorem empty_backup_code_is_no_backup_code_witness:
  "disableTwoFactorAuth example_deps ''u1''
     (\<lparr>code_param = [], password_param = ''s3cret'', backupCode_param = Some ''abcd123456''\<rparr>
        \<lparr>backupCode_param := Some []\<rparr>)
     (world_of example_user_enabled) =
   disableTwoFactorAuth example_deps ''u1''
     (\<lparr>code_param = [], password_param = ''s3cret'', backupCode_param = Some ''abcd123456''\<rparr>
        \<lparr>backupCode_param := None\<rparr>)
     (world_of example_user_enabled) \<and>
   disableTwoFactorAuth example_deps ''u1''
     (\<lparr>code_param = [], password_param = ''s3cret'', backupCode_param = Some ''abcd123456''\<rparr>
        \<lparr>backupCode_param := Some []\<rparr>)
     (world_of example_user_enabled) =
     (Inl (Error ''Second factor required''), world_of example_user_enabled)"
proof -
  have guards: "users (world_of example_user_enabled) ''u1'' = Some example_user_enabled \<and>
      truthy (password example_user_enabled) \<and> twoFactorEnabled example_user_enabled \<and>
      identityProvider example_user_enabled = ''email'' \<and>
      verifyPassword example_deps
        (password_param \<lparr>code_param = [], password_param = ''s3cret'',
           backupCode_param = Some ''abcd123456''\<rparr>)
        (str (password example_user_enabled)) \<and>
      code_param \<lparr>code_param = [], password_param = ''s3cret'',
           backupCode_param = Some ''abcd123456''\<rparr> = []"
    by (simp add: example_defs)
  note claim = empty_backup_code_is_no_backup_code
    [where d = example_deps and userId = "''u1''" and w = "world_of example_user_enabled"
       and u = example_user_enabled
       and ps = "\<lparr>code_param = [], password_param = ''s3cret'',
           backupCode_param = Some ''abcd123456''\<rparr>"]
  from claim [THEN conjunct1] claim [THEN conjunct2, rule_format, OF guards]
  show ?thesis by (rule conjI)
qed

text \<open>
  Claim C10. Two calls of disable on the same state that supply the same non-empty
  backup code and differ only in the \<^verbatim>\<open>code\<close> parameter have the same result and leave
  the same state. The TOTP code is not read on that path: replacing the TOTP checker by
  any other function changes nothing either.
\<close>

theorem code_ignored_with_backup_code:
  assumes "truthy (backupCode_param ps)"
  shows "disableTwoFactorAuth d userId (ps\<lparr>code_param := c1\<rparr>) w =
           disableTwoFactorAuth d userId (ps\<lparr>code_param := c2\<rparr>) w \<and>
         disableTwoFactorAuth (d\<lparr>totpAuthenticatorCheck := t\<rparr>) userId ps w =
           disableTwoFactorAuth d userId ps w"
  using assms by (simp add: disable_unfold cong: if_cong option.case_cong sum.case_cong)

theorem code_ignored_with_backup_code_witness:
  "truthy (backupCode_param
     \<lparr>code_param = [], password_param = ''s3cret'',
      backupCode_param = Some ''ab-cd-12-34-56''\<rparr>) \<and>
   disableTwoFactorAuth example_deps ''u1''
     (\<lparr>code_param = [], password_param = ''s3cret'',
       backupCode_param = Some ''ab-cd-12-34-56''\<rparr>\<lparr>code_param := ''123456''\<rparr>)
     (world_of example_user_enabled) =
   disableTwoFactorAuth example_deps ''u1''
     (\<lparr>code_param = [], password_param = ''s3cret'',
       backupCode_param = Some ''ab-cd-12-34-56''\<rparr>\<lparr>code_param := ''000000''\<rparr>)
     (world_of example_user_enabled)"
proof -
  have h: "truthy (backupCode_param
     \<lparr>code_param = [], password_param = ''s3cret'',
      backupCode_param = Some ''ab-cd-12-34-56''\<rparr>)"
    by (simp add: truthy_def)
  from code_ignored_with_backup_code [OF h, THEN conjunct1] h
  show ?thesis by blast
qed

end
